theory Spec2Isabelle
  imports Main
begin

section \<open>The badge service of app.py\<close>

text \<open>
  The two Flask handlers of \<^verbatim>\<open>app.py\<close>, \<^verbatim>\<open>last_test\<close> (route /last.svg) and
  \<^verbatim>\<open>app_deployed\<close> (route /appdeployed), are embedded as state-passing functions
  on a record of everything they read or change: the process environment, the redis
  store, the upstream collaborators, the log and counters of the external calls.
  A Python exception that leaves a handler is the \<open>Inl\<close> branch of the result.

  A Python \<^verbatim>\<open>str\<close> is a \<open>string\<close> whose characters are the code points below 256;
  a Python \<^verbatim>\<open>bytes\<close> value is a \<open>string\<close> whose characters are the bytes.
\<close>

subsection \<open>Values, exceptions, responses\<close>

datatype py_error =
    ConnectionError
  | TimeoutError
  | ResponseError
  | AssertionError
  | UnicodeDecodeError
  | ValueError

datatype log_level = INFO | ERROR

text \<open>The value of \<^verbatim>\<open>request.args.get('svg', 0)\<close>: a query parameter is a string,
  the default is the integer 0.\<close>

datatype py_value = PyStr string | PyInt int

text \<open>Python's \<^verbatim>\<open>==\<close> on these values: a \<^verbatim>\<open>str\<close> never equals an \<^verbatim>\<open>int\<close>.\<close>

fun py_eq :: "py_value \<Rightarrow> py_value \<Rightarrow> bool" where
  "py_eq (PyStr a) (PyStr b) = (a = b)"
| "py_eq (PyInt a) (PyInt b) = (a = b)"
| "py_eq (PyStr a) (PyInt b) = False"
| "py_eq (PyInt a) (PyStr b) = False"

text \<open>A response is the static file handed to \<^verbatim>\<open>send_from_directory\<close>: directory and
  file name. The \<^verbatim>\<open>nocache\<close> decorator only adds headers and is left out.\<close>

datatype response = SendFile string string

definition send_from_directory :: "string \<Rightarrow> string \<Rightarrow> response" where
  "send_from_directory directory filename = SendFile directory filename"

subsection \<open>Module constants\<close>

definition BADGE_DIR :: string where
  "BADGE_DIR = ''./badges''"

definition CACHE_TIMEOUT_DEFAULT :: nat where
  "CACHE_TIMEOUT_DEFAULT = 900"

definition BADGES_ENUM :: "string list" where
  "BADGES_ENUM = [''succeeded'', ''failed'', ''errored'']"

definition FILES_ENUM :: "string list" where
  "FILES_ENUM = BADGES_ENUM @ [''error'']"

subsection \<open>Strings: str(), isdigit(), int(), encode, decode\<close>

definition digit_char :: "nat \<Rightarrow> char" where
  "digit_char d = char_of (48 + d)"

text \<open>\<^verbatim>\<open>str(n)\<close> for a non-negative integer: its decimal digits.\<close>

fun str_nat :: "nat \<Rightarrow> string" where
  "str_nat n = (if n < 10 then [digit_char n] else str_nat (n div 10) @ [digit_char (n mod 10)])"

declare str_nat.simps [simp del]

text \<open>
  \<^verbatim>\<open>str.isdigit()\<close>: the string is not empty and every character has the Unicode
  property Numeric_Type=Decimal or Numeric_Type=Digit. Below code point 256 these are
  the ten ASCII digits (48 to 57) and the superscripts two, three and one
  (178, 179 and 185).
\<close>

definition is_decimal_char :: "char \<Rightarrow> bool" where
  "is_decimal_char c = (48 \<le> (of_char c :: nat) \<and> (of_char c :: nat) \<le> 57)"

definition is_digit_char :: "char \<Rightarrow> bool" where
  "is_digit_char c =
     (is_decimal_char c \<or> (of_char c :: nat) = 178 \<or> (of_char c :: nat) = 179
      \<or> (of_char c :: nat) = 185)"

definition isdigit :: "string \<Rightarrow> bool" where
  "isdigit s = (s \<noteq> [] \<and> list_all is_digit_char s)"

text \<open>
  \<^verbatim>\<open>int(s)\<close> on a string that passed \<^verbatim>\<open>isdigit()\<close> (the only place the source calls
  it): the decimal value when every character is an ASCII digit, and ValueError
  otherwise: \<^verbatim>\<open>int\<close> does not accept the superscript digits.
\<close>

definition digit_value :: "char \<Rightarrow> nat" where
  "digit_value c = (of_char c :: nat) - 48"

definition py_int :: "string \<Rightarrow> py_error + nat" where
  "py_int s =
     (if s \<noteq> [] \<and> list_all is_decimal_char s
      then Inr (foldl (\<lambda>acc c. 10 * acc + digit_value c) 0 s)
      else Inl ValueError)"

text \<open>\<^verbatim>\<open>bytes.decode('ascii')\<close>: fails on any byte above 127.\<close>

definition is_ascii :: "char \<Rightarrow> bool" where
  "is_ascii c = ((of_char c :: nat) < 128)"

definition decode_ascii :: "string \<Rightarrow> py_error + string" where
  "decode_ascii b = (if list_all is_ascii b then Inr b else Inl UnicodeDecodeError)"

text \<open>The redis client encodes a \<^verbatim>\<open>str\<close> value as UTF-8 before it sends it: one byte
  for a code point below 128, two bytes for the others below 256.\<close>

definition encode_utf8_char :: "char \<Rightarrow> string" where
  "encode_utf8_char c =
     (if is_ascii c then [c]
      else [char_of (192 + (of_char c :: nat) div 64), char_of (128 + (of_char c :: nat) mod 64)])"

definition encode_utf8 :: "string \<Rightarrow> string" where
  "encode_utf8 s = concat (map encode_utf8_char s)"

subsection \<open>The world of a request\<close>

text \<open>
  \<open>environ\<close> is \<^verbatim>\<open>os.environ\<close>. \<open>store\<close> is the redis database: a key holds a value
  and the time at which it expires; \<open>now\<close> is the clock of the store, in seconds.
  \<open>get_raises\<close> and \<open>set_raises\<close> say whether the store's GET and SET fail, and with
  which exception. \<open>last_test_run_status\<close> is what \<^verbatim>\<open>get_last_test_run_status()\<close>
  of the heroku module returns (\<open>None\<close> is Python's \<^verbatim>\<open>None\<close>), and
  \<open>check_if_app_is_deployed\<close> is the function of that name, from a URL to a token.
  \<open>cache_gets\<close>, \<open>cache_sets\<close> and \<open>fetch_calls\<close> count the calls made to the
  store and to the upstream; \<open>log\<close> collects what \<^verbatim>\<open>app.logger\<close> was given.

  \<^verbatim>\<open>redis.from_url\<close> only builds the client, the connection is opened by the first
  command; it is not a step of the model, which starts from a client that was built.
\<close>

record world =
  environ :: "string \<rightharpoonup> string"
  store :: "string \<rightharpoonup> (string \<times> nat)"
  now :: nat
  get_raises :: "py_error option"
  set_raises :: "py_error option"
  last_test_run_status :: "string option"
  check_if_app_is_deployed :: "string \<Rightarrow> string"
  cache_gets :: nat
  cache_sets :: nat
  fetch_calls :: nat
  log :: "(log_level \<times> string) list"

definition getenv :: "world \<Rightarrow> string \<Rightarrow> string option" where
  "getenv w name = environ w name"

definition logger :: "log_level \<Rightarrow> string \<Rightarrow> world \<Rightarrow> world" where
  "logger level msg w = w\<lparr>log := log w @ [(level, msg)]\<rparr>"

text \<open>What the store holds under a key at the current time: an expired entry is gone.\<close>

definition lookup :: "world \<Rightarrow> string \<Rightarrow> string option" where
  "lookup w k =
     (case store w k of
        None \<Rightarrow> None
      | Some (v, expires_at) \<Rightarrow> if now w < expires_at then Some v else None)"

text \<open>\<^verbatim>\<open>r.get(key)\<close>: the bytes stored, \<^verbatim>\<open>None\<close> on a miss, or an exception.\<close>

definition redis_get :: "string \<Rightarrow> world \<Rightarrow> (py_error + string option) \<times> world" where
  "redis_get k w =
     (let w' = w\<lparr>cache_gets := cache_gets w + 1\<rparr>
      in case get_raises w of
           Some e \<Rightarrow> (Inl e, w')
         | None \<Rightarrow> (Inr (lookup w k), w'))"

text \<open>\<^verbatim>\<open>r.set(key, value, ex=seconds)\<close>: stores the encoded value, to expire
  \<open>seconds\<close> from now, or raises.\<close>

definition redis_set :: "string \<Rightarrow> string \<Rightarrow> nat \<Rightarrow> world \<Rightarrow> (py_error + unit) \<times> world" where
  "redis_set k v ex w =
     (let w' = w\<lparr>cache_sets := cache_sets w + 1\<rparr>
      in case set_raises w of
           Some e \<Rightarrow> (Inl e, w')
         | None \<Rightarrow> (Inr (), w'\<lparr>store := (store w)(k \<mapsto> (encode_utf8 v, now w + ex))\<rparr>))"


subsection \<open>Badge selection\<close>

text \<open>\<^verbatim>\<open>send_badge_file\<close>: the assertion is a branch returning AssertionError.\<close>

definition send_badge_file :: "string \<Rightarrow> py_error + response" where
  "send_badge_file badge =
     (if badge \<in> set FILES_ENUM
      then Inr (send_from_directory BADGE_DIR (badge @ ''.svg''))
      else Inl AssertionError)"

definition send_heroku_badge :: "string \<Rightarrow> string \<Rightarrow> string \<Rightarrow> py_error + response" where
  "send_heroku_badge badge_name style file_extension =
     Inr (send_from_directory BADGE_DIR (badge_name @ style @ ''.'' @ file_extension))"

subsection \<open>The cache timeout\<close>

text \<open>
  Lines 88 to 96 of \<^verbatim>\<open>last_test\<close> and lines 149 to 157 of \<^verbatim>\<open>app_deployed\<close> are the
  same block; it is embedded once. It reads CACHE_TIMEOUT with the default
  \<^verbatim>\<open>str(CACHE_TIMEOUT_DEFAULT)\<close>, converts a value that passes \<^verbatim>\<open>isdigit()\<close> with
  \<^verbatim>\<open>int\<close>, and otherwise logs an error and takes the default.
\<close>

definition compute_cache_timeout :: "world \<Rightarrow> (py_error + nat) \<times> world" where
  "compute_cache_timeout w =
     (let cache_timeout =
            (case getenv w ''CACHE_TIMEOUT'' of
               None \<Rightarrow> str_nat CACHE_TIMEOUT_DEFAULT
             | Some s \<Rightarrow> s)
      in if isdigit cache_timeout then (py_int cache_timeout, w)
         else (Inr CACHE_TIMEOUT_DEFAULT, logger ERROR ''CACHE_TIMEOUT is not a valid int'' w))"

subsection \<open>The handler of /last.svg\<close>

definition last_test :: "world \<Rightarrow> (py_error + response) \<times> world" where
  "last_test w =
     (if getenv w ''HEROKU_AUTH_TOKEN'' = None then
        (send_badge_file ''error'',
         logger INFO ''mandatory HEROKU_AUTH_TOKEN env var not set (see README.md)'' w)
      else if getenv w ''PIPELINE_ID'' = None then
        (send_badge_file ''error'',
         logger INFO ''mandatory PIPELINE_ID env var not set (see README.md)'' w)
      else if getenv w ''REDIS_URL'' = None then
        (send_badge_file ''error'',
         logger INFO ''mandatory REDIS_URL env var not set (did you provision a redis add-on?)'' w)
      else
        case redis_get ''build_result'' w of
          (Inl e, w1) \<Rightarrow>
            if e = ConnectionError
            then (send_badge_file ''error'', logger ERROR ''could not connect to redis'' w1)
            else (Inl e, w1)
        | (Inr (Some cached), w1) \<Rightarrow>
            (case decode_ascii cached of
               Inl e \<Rightarrow> (Inl e, w1)
             | Inr badge \<Rightarrow> (send_badge_file badge, w1))
        | (Inr None, w1) \<Rightarrow>
            (let w2 = w1\<lparr>fetch_calls := fetch_calls w1 + 1\<rparr>
             in case last_test_run_status w2 of
                  None \<Rightarrow>
                    (send_badge_file ''error'',
                     logger ERROR ''could not get result from Heroku'' w2)
                | Some result \<Rightarrow>
                    if result \<notin> set BADGES_ENUM then
                      (send_badge_file ''error'',
                       logger ERROR (''got unexpected build status: '' @ result) w2)
                    else
                      (case compute_cache_timeout w2 of
                         (Inl e, w3) \<Rightarrow> (Inl e, w3)
                       | (Inr cache_timeout, w3) \<Rightarrow>
                           (case redis_set ''build_result'' result cache_timeout w3 of
                              (Inl e, w4) \<Rightarrow> (Inl e, w4)
                            | (Inr u, w4) \<Rightarrow> (send_badge_file result, w4)))))"

subsection \<open>The handler of /appdeployed\<close>

text \<open>The argument is \<^verbatim>\<open>request.args\<close>, the query parameters of the request.\<close>

definition app_deployed :: "(string \<rightharpoonup> string) \<Rightarrow> world \<Rightarrow> (py_error + response) \<times> world" where
  "app_deployed args w =
     (let app_name_opt = args ''app'';
          style0 = (case args ''style'' of None \<Rightarrow> '''' | Some s \<Rightarrow> s);
          svg = (case args ''svg'' of None \<Rightarrow> PyInt 0 | Some s \<Rightarrow> PyStr s);
          root = (case args ''root'' of None \<Rightarrow> '''' | Some s \<Rightarrow> s);
          file_extension = (if py_eq svg (PyInt 1) then ''svg'' else ''png'');
          style = (if style0 = ''flat'' then ''-'' @ style0 else style0)
      in case app_name_opt of
           None \<Rightarrow>
             (send_heroku_badge ''heroku-failed'' style file_extension,
              logger INFO ''mandatory app param not set'' w)
         | Some app_name \<Rightarrow>
             if getenv w ''REDIS_URL'' = None then
               (send_heroku_badge ''heroku-failed'' style file_extension,
                logger INFO
                  ''mandatory REDIS_URL env var not set (did you provision a redis add-on?)'' w)
             else
               (case redis_get (app_name @ ''_deployed'') w of
                 (Inl e, w1) \<Rightarrow>
                   if e = ConnectionError
                   then (send_heroku_badge ''heroku-failed'' style file_extension,
                         logger ERROR ''could not connect to redis'' w1)
                   else (Inl e, w1)
               | (Inr (Some cached), w1) \<Rightarrow>
                   (case decode_ascii cached of
                      Inl e \<Rightarrow> (Inl e, w1)
                    | Inr badge \<Rightarrow> (send_heroku_badge badge style file_extension, w1))
               | (Inr None, w1) \<Rightarrow>
                   (let url = ''https://'' @ app_name @ ''.herokuapp.com/'' @ root;
                        w2 = w1\<lparr>fetch_calls := fetch_calls w1 + 1\<rparr>;
                        result = check_if_app_is_deployed w2 url
                    in case compute_cache_timeout w2 of
                         (Inl e, w3) \<Rightarrow> (Inl e, w3)
                       | (Inr cache_timeout, w3) \<Rightarrow>
                           (case redis_set (app_name @ ''_deployed'') result cache_timeout w3 of
                              (Inl e, w4) \<Rightarrow> (Inl e, w4)
                            | (Inr u, w4) \<Rightarrow>
                                (send_heroku_badge result style file_extension, w4)))))"

subsection \<open>What the specification adds to the source\<close>


text \<open>
  The effective TTL in the words of section 4.2 of the specification: the override
  when it is present and a syntactically valid non-negative integer string (one or
  more ASCII digits), the default of 900 seconds otherwise.
\<close>

definition valid_nonneg_int_string :: "string \<Rightarrow> bool" where
  "valid_nonneg_int_string s = (s \<noteq> [] \<and> list_all is_decimal_char s)"

definition spec_ttl :: "string option \<Rightarrow> nat" where
  "spec_ttl override =
     (case override of
        None \<Rightarrow> 900
      | Some s \<Rightarrow>
          if valid_nonneg_int_string s
          then foldl (\<lambda>acc c. 10 * acc + digit_value c) 0 s
          else 900)"

subsection \<open>Concrete worlds\<close>

text \<open>A deployment with every mandatory variable set, an empty store that answers,
  and upstreams that report success.\<close>

definition env_ok :: "string \<rightharpoonup> string" where
  "env_ok = [''HEROKU_AUTH_TOKEN'' \<mapsto> ''token'', ''PIPELINE_ID'' \<mapsto> ''pipeline'',
             ''REDIS_URL'' \<mapsto> ''redis://localhost:6379'']"

definition world0 :: world where
  "world0 = \<lparr>environ = env_ok, store = Map.empty, now = 0, get_raises = None,
     set_raises = None, last_test_run_status = Some ''succeeded'',
     check_if_app_is_deployed = (\<lambda>url. ''heroku-succeeded''),
     cache_gets = 0, cache_sets = 0, fetch_calls = 0, log = []\<rparr>"

text \<open>The store refuses the connection at GET.\<close>

definition world_get_down :: world where
  "world_get_down = world0\<lparr>get_raises := Some ConnectionError\<rparr>"

text \<open>HEROKU_AUTH_TOKEN is not set.\<close>

definition world_no_token :: world where
  "world_no_token = world0\<lparr>environ := env_ok(''HEROKU_AUTH_TOKEN'' := None)\<rparr>"

text \<open>Ten seconds into entries cached to expire at second 900.\<close>

definition world_warm :: world where
  "world_warm = world0\<lparr>store := [''build_result'' \<mapsto> (''failed'', 900),
                                    ''myapp_deployed'' \<mapsto> (''heroku-failed'', 900)],
                        now := 10\<rparr>"



text \<open>The store holds a build status that is not a badge.\<close>

definition world_stale :: world where
  "world_stale = world0\<lparr>store := [''build_result'' \<mapsto> (''pending'', 900)]\<rparr>"

text \<open>The store answers at GET and refuses the connection at SET.\<close>

definition world_set_down :: world where
  "world_set_down = world0\<lparr>set_raises := Some ConnectionError\<rparr>"

text \<open>CACHE_TIMEOUT is the one-character string superscript two (code point 178).\<close>

definition world_superscript :: world where
  "world_superscript = world0\<lparr>environ := env_ok(''CACHE_TIMEOUT'' \<mapsto> [CHR 0xB2])\<rparr>"



text \<open>The four files \<open>send_badge_file\<close> can name.\<close>

definition badge_files :: "response set" where
  "badge_files = {SendFile BADGE_DIR ''succeeded.svg'', SendFile BADGE_DIR ''failed.svg'',
                  SendFile BADGE_DIR ''errored.svg'', SendFile BADGE_DIR ''error.svg''}"

section \<open>Properties\<close>

subsection \<open>Auxiliary facts\<close>

lemma str_nat_default: "str_nat CACHE_TIMEOUT_DEFAULT = ''900''"
  by code_simp

lemma isdigit_default: "isdigit ''900''"
  by (simp add: isdigit_def is_digit_char_def is_decimal_char_def)

lemma py_int_default: "py_int ''900'' = Inr 900"
  by (simp add: py_int_def is_decimal_char_def digit_value_def)

lemma compute_cache_timeout_unset:
  "getenv w ''CACHE_TIMEOUT'' = None \<Longrightarrow> compute_cache_timeout w = (Inr 900, w)"
  by (simp add: compute_cache_timeout_def str_nat_default isdigit_default py_int_default)

lemma compute_cache_timeout_malformed:
  "getenv w ''CACHE_TIMEOUT'' = Some s \<Longrightarrow> \<not> isdigit s \<Longrightarrow>
   compute_cache_timeout w = (Inr 900, logger ERROR ''CACHE_TIMEOUT is not a valid int'' w)"
  by (simp add: compute_cache_timeout_def CACHE_TIMEOUT_DEFAULT_def)

lemma compute_cache_timeout_digits:
  "getenv w ''CACHE_TIMEOUT'' = Some s \<Longrightarrow> isdigit s \<Longrightarrow>
   compute_cache_timeout w = (py_int s, w)"
  by (simp add: compute_cache_timeout_def)

lemma encode_utf8_ascii: "list_all is_ascii s \<Longrightarrow> encode_utf8 s = s"
  by (induction s) (simp_all add: encode_utf8_def encode_utf8_char_def)

lemma badges_ascii: "t \<in> set BADGES_ENUM \<Longrightarrow> list_all is_ascii t"
  by (auto simp: BADGES_ENUM_def is_ascii_def)

lemma badges_files: "t \<in> set BADGES_ENUM \<Longrightarrow> t \<in> set FILES_ENUM"
  by (simp add: FILES_ENUM_def)

lemma send_badge_file_error: "send_badge_file ''error'' = Inr (SendFile BADGE_DIR ''error.svg'')"
  by (simp add: send_badge_file_def FILES_ENUM_def BADGES_ENUM_def send_from_directory_def)

lemma send_badge_file_valid:
  "t \<in> set FILES_ENUM \<Longrightarrow> send_badge_file t = Inr (SendFile BADGE_DIR (t @ ''.svg''))"
  by (simp add: send_badge_file_def send_from_directory_def)

subsection \<open>C2: a connection error at GET ends the request\<close>

text \<open>
  Claim C2. When the store's GET fails with a connection error, \<open>last_test\<close> answers
  with the error badge and \<open>app_deployed\<close> with the heroku-failed badge (in the
  requested style, as png), the upstream is not called (the count of fetches is
  unchanged) and the store is not written.
\<close>

theorem get_connection_error_short_circuits:
  assumes "get_raises w = Some ConnectionError"
  shows "fst (last_test w) = Inr (SendFile BADGE_DIR ''error.svg'')
       \<and> fetch_calls (snd (last_test w)) = fetch_calls w
       \<and> store (snd (last_test w)) = store w
       \<and> fst (app_deployed args w) =
           Inr (SendFile BADGE_DIR
                  (''heroku-failed''
                   @ (case args ''style'' of None \<Rightarrow> '''' | Some s \<Rightarrow> if s = ''flat'' then ''-flat'' else s)
                   @ ''.png''))
       \<and> fetch_calls (snd (app_deployed args w)) = fetch_calls w
       \<and> store (snd (app_deployed args w)) = store w"
proof -
  have lt: "fst (last_test w) = Inr (SendFile BADGE_DIR ''error.svg'')
       \<and> fetch_calls (snd (last_test w)) = fetch_calls w
       \<and> store (snd (last_test w)) = store w"
    using assms
    by (simp add: last_test_def redis_get_def logger_def send_badge_file_error Let_def)
  have ad: "fst (app_deployed args w) =
           Inr (SendFile BADGE_DIR
                  (''heroku-failed''
                   @ (case args ''style'' of None \<Rightarrow> '''' | Some s \<Rightarrow> if s = ''flat'' then ''-flat'' else s)
                   @ ''.png''))
       \<and> fetch_calls (snd (app_deployed args w)) = fetch_calls w
       \<and> store (snd (app_deployed args w)) = store w"
    using assms
    by (cases "args ''svg''"; cases "args ''style''"; cases "args ''app''")
       (simp_all add: app_deployed_def redis_get_def logger_def send_heroku_badge_def
          send_from_directory_def Let_def)
  from lt ad show ?thesis by simp
qed

theorem get_connection_error_short_circuits_witness:
  "fst (last_test world_get_down) = Inr (SendFile BADGE_DIR ''error.svg'')
   \<and> fetch_calls (snd (last_test world_get_down)) = 0
   \<and> fst (app_deployed [''app'' \<mapsto> ''myapp'', ''style'' \<mapsto> ''flat''] world_get_down) =
         Inr (SendFile BADGE_DIR ''heroku-failed-flat.png'')
   \<and> fetch_calls (snd (app_deployed [''app'' \<mapsto> ''myapp'', ''style'' \<mapsto> ''flat''] world_get_down)) = 0"
  using get_connection_error_short_circuits
          [of world_get_down "[''app'' \<mapsto> ''myapp'', ''style'' \<mapsto> ''flat'']"]
  by (simp add: world_get_down_def world0_def)

subsection \<open>C8: a missing mandatory input ends the request\<close>

text \<open>
  Claim C8. When a mandatory input is absent (HEROKU_AUTH_TOKEN, PIPELINE_ID or
  REDIS_URL for \<open>last_test\<close>; the app parameter or REDIS_URL for
  \<open>app_deployed\<close>), the handler answers at once with the error badge,
  respectively the heroku-failed badge, and neither the store (no GET, no SET) nor
  the upstream is called.
\<close>

theorem missing_input_is_terminal:
  "((getenv w ''HEROKU_AUTH_TOKEN'' = None \<or> getenv w ''PIPELINE_ID'' = None
       \<or> getenv w ''REDIS_URL'' = None) \<longrightarrow>
      fst (last_test w) = Inr (SendFile BADGE_DIR ''error.svg'')
      \<and> cache_gets (snd (last_test w)) = cache_gets w
      \<and> cache_sets (snd (last_test w)) = cache_sets w
      \<and> fetch_calls (snd (last_test w)) = fetch_calls w
      \<and> store (snd (last_test w)) = store w)
   \<and> ((args ''app'' = None \<or> getenv w ''REDIS_URL'' = None) \<longrightarrow>
      fst (app_deployed args w) =
         Inr (SendFile BADGE_DIR
                (''heroku-failed''
                 @ (case args ''style'' of None \<Rightarrow> '''' | Some s \<Rightarrow> if s = ''flat'' then ''-flat'' else s)
                 @ ''.png''))
      \<and> cache_gets (snd (app_deployed args w)) = cache_gets w
      \<and> cache_sets (snd (app_deployed args w)) = cache_sets w
      \<and> fetch_calls (snd (app_deployed args w)) = fetch_calls w
      \<and> store (snd (app_deployed args w)) = store w)"
proof (rule conjI; rule impI)
  assume "getenv w ''HEROKU_AUTH_TOKEN'' = None \<or> getenv w ''PIPELINE_ID'' = None
       \<or> getenv w ''REDIS_URL'' = None"
  then show "fst (last_test w) = Inr (SendFile BADGE_DIR ''error.svg'')
      \<and> cache_gets (snd (last_test w)) = cache_gets w
      \<and> cache_sets (snd (last_test w)) = cache_sets w
      \<and> fetch_calls (snd (last_test w)) = fetch_calls w
      \<and> store (snd (last_test w)) = store w"
    by (auto simp: last_test_def logger_def send_badge_file_error)
next
  assume "args ''app'' = None \<or> getenv w ''REDIS_URL'' = None"
  then show "fst (app_deployed args w) =
         Inr (SendFile BADGE_DIR
                (''heroku-failed''
                 @ (case args ''style'' of None \<Rightarrow> '''' | Some s \<Rightarrow> if s = ''flat'' then ''-flat'' else s)
                 @ ''.png''))
      \<and> cache_gets (snd (app_deployed args w)) = cache_gets w
      \<and> cache_sets (snd (app_deployed args w)) = cache_sets w
      \<and> fetch_calls (snd (app_deployed args w)) = fetch_calls w
      \<and> store (snd (app_deployed args w)) = store w"
    by (cases "args ''svg''"; cases "args ''style''"; cases "args ''app''")
       (auto simp: app_deployed_def logger_def send_heroku_badge_def
          send_from_directory_def Let_def)
qed

theorem missing_input_is_terminal_witness:
  "fst (last_test world_no_token) = Inr (SendFile BADGE_DIR ''error.svg'')
   \<and> cache_gets (snd (last_test world_no_token)) = 0
   \<and> fetch_calls (snd (last_test world_no_token)) = 0
   \<and> fst (app_deployed [''style'' \<mapsto> ''flat''] world0) =
        Inr (SendFile BADGE_DIR ''heroku-failed-flat.png'')
   \<and> cache_gets (snd (app_deployed [''style'' \<mapsto> ''flat''] world0)) = 0
   \<and> fetch_calls (snd (app_deployed [''style'' \<mapsto> ''flat''] world0)) = 0"
  using missing_input_is_terminal [of world_no_token "[''style'' \<mapsto> ''flat'']"]
        missing_input_is_terminal [of world0 "[''style'' \<mapsto> ''flat'']"]
  by (simp add: world_no_token_def world0_def env_ok_def getenv_def)

subsection \<open>C3: a cached value is served as it is\<close>

text \<open>
  Claim C3. With the configuration present and the store answering, a token \<open>T\<close>
  held under the request's key is returned as the badge of \<open>T\<close>; the world
  changes only by the one GET, so the upstream is not called and nothing is written.
  The cached value is not checked against BADGES_ENUM: \<open>last_test\<close> serves the
  sentinel \<open>error\<close> from the store as well, and \<open>app_deployed\<close> serves any
  ASCII value.
\<close>

theorem cache_hit_served_without_fetch:
  "((getenv w ''HEROKU_AUTH_TOKEN'' \<noteq> None \<and> getenv w ''PIPELINE_ID'' \<noteq> None
       \<and> getenv w ''REDIS_URL'' \<noteq> None \<and> get_raises w = None
       \<and> lookup w ''build_result'' = Some T \<and> (T \<in> set BADGES_ENUM \<or> T = ''error'')) \<longrightarrow>
      last_test w =
        (Inr (SendFile BADGE_DIR (T @ ''.svg'')), w\<lparr>cache_gets := cache_gets w + 1\<rparr>))
   \<and> ((args ''app'' = Some app_name \<and> getenv w ''REDIS_URL'' \<noteq> None \<and> get_raises w = None
       \<and> lookup w (app_name @ ''_deployed'') = Some T \<and> list_all is_ascii T) \<longrightarrow>
      app_deployed args w =
        (Inr (SendFile BADGE_DIR
                (T @ (case args ''style'' of None \<Rightarrow> '''' | Some s \<Rightarrow> if s = ''flat'' then ''-flat'' else s)
                 @ ''.png'')),
         w\<lparr>cache_gets := cache_gets w + 1\<rparr>))"
proof (rule conjI; rule impI)
  assume a: "getenv w ''HEROKU_AUTH_TOKEN'' \<noteq> None \<and> getenv w ''PIPELINE_ID'' \<noteq> None
       \<and> getenv w ''REDIS_URL'' \<noteq> None \<and> get_raises w = None
       \<and> lookup w ''build_result'' = Some T \<and> (T \<in> set BADGES_ENUM \<or> T = ''error'')"
  then have f: "T \<in> set FILES_ENUM" by (auto simp: FILES_ENUM_def)
  have asc: "list_all is_ascii T"
    using a by (auto simp: BADGES_ENUM_def is_ascii_def)
  have e: "\<not> getenv w ''HEROKU_AUTH_TOKEN'' = None" "\<not> getenv w ''PIPELINE_ID'' = None"
       "\<not> getenv w ''REDIS_URL'' = None" "get_raises w = None"
       "lookup w ''build_result'' = Some T"
    using a by blast+
  show "last_test w =
        (Inr (SendFile BADGE_DIR (T @ ''.svg'')), w\<lparr>cache_gets := cache_gets w + 1\<rparr>)"
    unfolding last_test_def redis_get_def decode_ascii_def Let_def
    using asc by (simp only: e if_False if_True option.case prod.case sum.case
        send_badge_file_valid [OF f])
next
  assume a: "args ''app'' = Some app_name \<and> getenv w ''REDIS_URL'' \<noteq> None \<and> get_raises w = None
       \<and> lookup w (app_name @ ''_deployed'') = Some T \<and> list_all is_ascii T"
  then have e: "\<not> getenv w ''REDIS_URL'' = None" by blast
  from a show "app_deployed args w =
        (Inr (SendFile BADGE_DIR
                (T @ (case args ''style'' of None \<Rightarrow> '''' | Some s \<Rightarrow> if s = ''flat'' then ''-flat'' else s)
                 @ ''.png'')),
         w\<lparr>cache_gets := cache_gets w + 1\<rparr>)"
    by (cases "args ''svg''"; cases "args ''style''")
       (simp_all add: app_deployed_def redis_get_def decode_ascii_def send_heroku_badge_def
          send_from_directory_def Let_def e del: not_None_eq)
qed

theorem cache_hit_served_without_fetch_witness:
  "fst (last_test world_warm) = Inr (SendFile BADGE_DIR ''failed.svg'')
   \<and> fetch_calls (snd (last_test world_warm)) = 0
   \<and> fst (app_deployed [''app'' \<mapsto> ''myapp''] world_warm) =
        Inr (SendFile BADGE_DIR ''heroku-failed.png'')
   \<and> fetch_calls (snd (app_deployed [''app'' \<mapsto> ''myapp''] world_warm)) = 0"
  using cache_hit_served_without_fetch
          [of world_warm "''failed''" "[''app'' \<mapsto> ''myapp'']" "''myapp''"]
        cache_hit_served_without_fetch
          [of world_warm "''heroku-failed''" "[''app'' \<mapsto> ''myapp'']" "''myapp''"]
  by (simp add: world_warm_def world0_def env_ok_def getenv_def lookup_def BADGES_ENUM_def
        is_ascii_def)

subsection \<open>The timeout block and the miss path\<close>

text \<open>The timeout block changes nothing but the log.\<close>

lemma compute_cache_timeout_frame:
  "compute_cache_timeout w = (r, w') \<Longrightarrow>
     store w' = store w \<and> now w' = now w \<and> set_raises w' = set_raises w
     \<and> get_raises w' = get_raises w \<and> environ w' = environ w
     \<and> cache_sets w' = cache_sets w \<and> cache_gets w' = cache_gets w
     \<and> fetch_calls w' = fetch_calls w
     \<and> last_test_run_status w' = last_test_run_status w
     \<and> check_if_app_is_deployed w' = check_if_app_is_deployed w"
  by (auto simp: compute_cache_timeout_def logger_def Let_def split: if_splits)

text \<open>When CACHE_TIMEOUT is not a string that passes \<^verbatim>\<open>isdigit()\<close> and that \<^verbatim>\<open>int\<close>
  rejects, the block computes the TTL of the specification.\<close>

lemma valid_imp_isdigit: "valid_nonneg_int_string s \<Longrightarrow> isdigit s"
  by (induction s)
     (auto simp: valid_nonneg_int_string_def isdigit_def is_digit_char_def list_all_iff)

lemma compute_cache_timeout_spec:
  assumes "\<forall>s. getenv w ''CACHE_TIMEOUT'' = Some s \<longrightarrow> isdigit s \<longrightarrow> valid_nonneg_int_string s"
  shows "fst (compute_cache_timeout w) = Inr (spec_ttl (getenv w ''CACHE_TIMEOUT''))"
proof (cases "getenv w ''CACHE_TIMEOUT''")
  case None
  then show ?thesis by (simp add: compute_cache_timeout_unset spec_ttl_def)
next
  case (Some s)
  show ?thesis
  proof (cases "isdigit s")
    case True
    with Some assms have v: "valid_nonneg_int_string s" by simp
    then show ?thesis
      using Some True
      by (simp add: compute_cache_timeout_digits spec_ttl_def py_int_def
            valid_nonneg_int_string_def)
  next
    case False
    then have "\<not> valid_nonneg_int_string s" using valid_imp_isdigit by blast
    then show ?thesis
      using Some False by (simp add: compute_cache_timeout_malformed spec_ttl_def)
  qed
qed

text \<open>The miss path of \<open>last_test\<close> with a valid upstream token and a store that
  accepts the SET.\<close>

lemma last_test_miss_valid:
  assumes env: "getenv w ''HEROKU_AUTH_TOKEN'' \<noteq> None" "getenv w ''PIPELINE_ID'' \<noteq> None"
               "getenv w ''REDIS_URL'' \<noteq> None"
    and get: "get_raises w = None" and miss: "lookup w ''build_result'' = None"
    and up: "last_test_run_status w = Some T" and valid: "T \<in> set BADGES_ENUM"
    and set: "set_raises w = None"
    and ttl: "\<forall>s. getenv w ''CACHE_TIMEOUT'' = Some s \<longrightarrow> isdigit s \<longrightarrow> valid_nonneg_int_string s"
  shows "fst (last_test w) = Inr (SendFile BADGE_DIR (T @ ''.svg''))"
    and "store (snd (last_test w)) =
           (store w)(''build_result'' \<mapsto> (T, now w + spec_ttl (getenv w ''CACHE_TIMEOUT'')))"
    and "fetch_calls (snd (last_test w)) = fetch_calls w + 1"
    and "environ (snd (last_test w)) = environ w"
    and "now (snd (last_test w)) = now w"
    and "get_raises (snd (last_test w)) = None"
proof -
  define w2 where "w2 = w\<lparr>cache_gets := cache_gets w + 1, fetch_calls := fetch_calls w + 1\<rparr>"
  obtain r w3 where c: "compute_cache_timeout w2 = (r, w3)" by (cases "compute_cache_timeout w2")
  have g2: "getenv w2 ''CACHE_TIMEOUT'' = getenv w ''CACHE_TIMEOUT''"
    by (simp add: w2_def getenv_def)
  have r: "r = Inr (spec_ttl (getenv w ''CACHE_TIMEOUT''))"
    using compute_cache_timeout_spec [of w2] ttl c g2 by simp
  have fr: "store w3 = store w" "now w3 = now w" "set_raises w3 = None"
       "fetch_calls w3 = fetch_calls w + 1" "environ w3 = environ w" "get_raises w3 = None"
    using compute_cache_timeout_frame [OF c] get set by (simp_all add: w2_def)
  have e: "\<not> getenv w ''HEROKU_AUTH_TOKEN'' = None" "\<not> getenv w ''PIPELINE_ID'' = None"
       "\<not> getenv w ''REDIS_URL'' = None"
    using env by blast+
  have lt: "last_test w =
     (case redis_set ''build_result'' T (spec_ttl (getenv w ''CACHE_TIMEOUT'')) w3 of
        (Inl e, w4) \<Rightarrow> (Inl e, w4)
      | (Inr u, w4) \<Rightarrow> (send_badge_file T, w4))"
    unfolding last_test_def redis_get_def Let_def
    using valid c[unfolded w2_def] r
    by (simp add: e get miss up del: not_None_eq)
  have enc: "encode_utf8 T = T" using valid by (simp add: encode_utf8_ascii badges_ascii)
  have sb: "send_badge_file T = Inr (SendFile BADGE_DIR (T @ ''.svg''))"
    using valid by (simp add: send_badge_file_valid badges_files)
  show "fst (last_test w) = Inr (SendFile BADGE_DIR (T @ ''.svg''))"
    by (simp add: lt redis_set_def fr Let_def sb)
  show "store (snd (last_test w)) =
           (store w)(''build_result'' \<mapsto> (T, now w + spec_ttl (getenv w ''CACHE_TIMEOUT'')))"
    by (simp add: lt redis_set_def fr Let_def enc)
  show "fetch_calls (snd (last_test w)) = fetch_calls w + 1"
    by (simp add: lt redis_set_def fr Let_def)
  show "environ (snd (last_test w)) = environ w"
    by (simp add: lt redis_set_def fr Let_def)
  show "now (snd (last_test w)) = now w"
    by (simp add: lt redis_set_def fr Let_def)
  show "get_raises (snd (last_test w)) = None"
    by (simp add: lt redis_set_def fr Let_def)
qed

subsection \<open>C4: a miss with a valid token returns and caches it\<close>



subsection \<open>C9: two requests within the TTL\<close>





subsection \<open>C10: the files served by /last.svg\<close>

lemma send_badge_file_range: "send_badge_file b = Inr r \<Longrightarrow> r \<in> badge_files"
  by (auto simp: send_badge_file_def FILES_ENUM_def BADGES_ENUM_def send_from_directory_def
        badge_files_def split: if_splits)

lemma send_badge_file_outside: "b \<notin> set FILES_ENUM \<Longrightarrow> send_badge_file b = Inl AssertionError"
  by (simp add: send_badge_file_def)

lemma last_test_response:
  "fst (last_test w) = Inr r \<Longrightarrow> \<exists>b. send_badge_file b = Inr r"
  unfolding last_test_def redis_get_def redis_set_def Let_def
  by (auto split: if_splits option.splits sum.splits prod.splits)

text \<open>
  Claim C10. Every response of \<open>last_test\<close> is one of the four files
  succeeded.svg, failed.svg, errored.svg and error.svg of the badge directory; and
  when the store holds bytes that decode to a value outside FILES_ENUM, the assertion
  of \<open>send_badge_file\<close> fails and the handler raises AssertionError instead of
  serving a file.
\<close>

theorem last_test_serves_only_badge_files:
  "(fst (last_test w) = Inr r \<longrightarrow> r \<in> badge_files)
   \<and> ((getenv w ''HEROKU_AUTH_TOKEN'' \<noteq> None \<and> getenv w ''PIPELINE_ID'' \<noteq> None
        \<and> getenv w ''REDIS_URL'' \<noteq> None \<and> get_raises w = None
        \<and> lookup w ''build_result'' = Some cached \<and> decode_ascii cached = Inr badge
        \<and> badge \<notin> set FILES_ENUM) \<longrightarrow>
       fst (last_test w) = Inl AssertionError)"
proof (rule conjI; rule impI)
  assume "fst (last_test w) = Inr r"
  then show "r \<in> badge_files"
    using last_test_response send_badge_file_range by blast
next
  assume a: "getenv w ''HEROKU_AUTH_TOKEN'' \<noteq> None \<and> getenv w ''PIPELINE_ID'' \<noteq> None
        \<and> getenv w ''REDIS_URL'' \<noteq> None \<and> get_raises w = None
        \<and> lookup w ''build_result'' = Some cached \<and> decode_ascii cached = Inr badge
        \<and> badge \<notin> set FILES_ENUM"
  then have e: "\<not> getenv w ''HEROKU_AUTH_TOKEN'' = None" "\<not> getenv w ''PIPELINE_ID'' = None"
       "\<not> getenv w ''REDIS_URL'' = None"
    by blast+
  from a have o: "send_badge_file badge = Inl AssertionError"
    by (simp add: send_badge_file_outside)
  from a show "fst (last_test w) = Inl AssertionError"
    unfolding last_test_def redis_get_def Let_def
    by (simp add: e o del: not_None_eq)
qed

theorem last_test_serves_only_badge_files_witness:
  "fst (last_test world0) = Inr (SendFile BADGE_DIR ''succeeded.svg'')
   \<and> SendFile BADGE_DIR ''succeeded.svg'' \<in> badge_files
   \<and> fst (last_test world_stale) = Inl AssertionError"
  using last_test_serves_only_badge_files
          [of world0 "SendFile BADGE_DIR ''succeeded.svg''" "''pending''" "''pending''"]
        last_test_serves_only_badge_files
          [of world_stale "SendFile BADGE_DIR ''succeeded.svg''" "''pending''" "''pending''"]
        last_test_miss_valid(1) [of world0 "''succeeded''"]
  by (simp add: world_stale_def world0_def env_ok_def getenv_def lookup_def decode_ascii_def
        is_ascii_def FILES_ENUM_def BADGES_ENUM_def badge_files_def)

subsection \<open>C6: the svg parameter of /appdeployed\<close>

text \<open>
  A query parameter is a string and the source compares it with the integer 1, so
  the comparison never holds: every file \<open>app_deployed\<close> serves ends in .png.
\<close>

lemma app_deployed_extension:
  "fst (app_deployed args w) = Inr (SendFile d f) \<Longrightarrow> \<exists>stem. f = stem @ ''.png''"
  unfolding app_deployed_def redis_get_def redis_set_def Let_def send_heroku_badge_def
    send_from_directory_def
  by (cases "args ''svg''")
     (auto split: if_splits option.splits sum.splits prod.splits)

text \<open>
  Claim C6, at the request /appdeployed?app=myapp&svg=1: the claim says the svg asset
  is returned; the handler returns heroku-succeeded.png.
\<close>

theorem svg_parameter_never_selects_svg:
  "fst (app_deployed [''app'' \<mapsto> ''myapp'', ''svg'' \<mapsto> ''1''] world0) =
     Inr (SendFile BADGE_DIR ''heroku-succeeded.png'')"
  by (simp add: app_deployed_def world0_def env_ok_def getenv_def redis_get_def lookup_def
        compute_cache_timeout_unset redis_set_def send_heroku_badge_def send_from_directory_def
        Let_def)

subsection \<open>C5: a failing SET\<close>

text \<open>
  Claim C5, at a request whose GET misses, whose upstream token is valid and whose
  SET raises ConnectionError: the claim says the handler still returns the badge; the
  call of \<^verbatim>\<open>r.set\<close> is not guarded, and the exception leaves both handlers.
\<close>

theorem set_failure_escapes_handler:
  "fst (last_test world_set_down) = Inl ConnectionError
   \<and> fst (app_deployed [''app'' \<mapsto> ''myapp''] world_set_down) = Inl ConnectionError"
  by (simp add: last_test_def app_deployed_def world_set_down_def world0_def env_ok_def
        getenv_def redis_get_def lookup_def compute_cache_timeout_unset redis_set_def
        BADGES_ENUM_def Let_def)

subsection \<open>C7: a malformed CACHE_TIMEOUT\<close>

text \<open>
  Claim C7, at CACHE_TIMEOUT set to the superscript two: the string is not a valid
  non-negative integer string, yet \<^verbatim>\<open>isdigit()\<close> accepts it, \<^verbatim>\<open>int\<close> raises
  ValueError and the request is aborted with nothing cached. (For a value that
  \<^verbatim>\<open>isdigit()\<close> rejects the block does fall back to 900 and logs the error:
  \<open>compute_cache_timeout_malformed\<close>.)
\<close>

theorem superscript_timeout_aborts:
  "\<not> valid_nonneg_int_string [CHR 0xB2]
   \<and> fst (last_test world_superscript) = Inl ValueError
   \<and> store (snd (last_test world_superscript)) = Map.empty
   \<and> fst (app_deployed [''app'' \<mapsto> ''myapp''] world_superscript) = Inl ValueError"
  by (simp add: last_test_def app_deployed_def world_superscript_def world0_def env_ok_def
        getenv_def redis_get_def lookup_def compute_cache_timeout_def isdigit_def
        is_digit_char_def is_decimal_char_def py_int_def valid_nonneg_int_string_def
        BADGES_ENUM_def Let_def)

subsection \<open>C1: what is written to the cache\<close>







end
